theory Spec2Isabelle
  imports Main
begin

section \<open>The task-management client: data\<close>

text \<open>
  The client is three React components that matter here: \<open>App\<close> (the authenticated flag,
  login and logout), \<open>Login\<close> (the remembered e-mail) and \<open>Dashboard\<close> (the task list,
  the create form, the edit modal and the helper \<open>fetchWithAuth\<close> every task request goes
  through). Component state, \<open>localStorage\<close>, the calls of \<open>navigate\<close> and the calls of
  \<open>fetch\<close> are fields of one record that every handler takes and returns.
\<close>

text \<open>
  A task as the dashboard reads it: \<open>task.id\<close>, \<open>task.title\<close>, \<open>task.description\<close>,
  \<open>task.completed\<close> and \<open>task.status\<close>. The last one is optional: the client itself
  never sends a \<open>status\<close>, so the field is \<open>None\<close> when the server answers without it
  (JavaScript's \<open>undefined\<close>). The flag \<open>completed\<close> is only ever compared with
  \<open>=== true\<close> and \<open>=== false\<close>: it is \<open>Some b\<close> when the field holds the boolean
  \<open>b\<close> and \<open>None\<close> when it is missing or holds anything else. The id is a JavaScript
  number; the model covers the ids that are non-negative integers up to
  \<open>Number.MAX_SAFE_INTEGER\<close>, which such a number holds exactly and prints as plain
  decimal digits.
\<close>

record task =
  task_id :: nat
  title :: string
  description :: string
  completed :: "bool option"
  status :: "string option"

definition MAX_SAFE_INTEGER :: nat where
  "MAX_SAFE_INTEGER = 9007199254740991"

text \<open>
  The JavaScript values that travel from a response to the component state. An array of
  task objects is the only array the client expects; an object keeps its string fields.
\<close>

datatype jsval =
    JUndefined
  | JNull
  | JBool bool
  | JNum int
  | JStr string
  | JTasks "task list"
  | JObject "(string \<times> string) list"

text \<open>JavaScript's truthiness, as \<open>if (data)\<close> and \<open>a || b\<close> use it.\<close>

fun truthy :: "jsval \<Rightarrow> bool" where
  "truthy JUndefined = False"
| "truthy JNull = False"
| "truthy (JBool b) = b"
| "truthy (JNum n) = (n \<noteq> 0)"
| "truthy (JStr s) = (s \<noteq> [])"
| "truthy (JTasks ts) = True"
| "truthy (JObject fs) = True"

text \<open>\<open>localStorage\<close>: \<open>getItem\<close> is application, a missing key is \<open>None\<close> (\<open>null\<close>).\<close>

type_synonym storage = "string \<rightharpoonup> string"

text \<open>\<open>!!value\<close> for what \<open>getItem\<close> returns: \<open>null\<close> and the empty string are falsy.\<close>

fun present :: "string option \<Rightarrow> bool" where
  "present None = False"
| "present (Some v) = (v \<noteq> [])"

text \<open>The body of a create or update request, before \<open>JSON.stringify\<close>.\<close>

record task_body =
  body_title :: string
  body_description :: string
  body_completed :: bool

text \<open>
  The second argument of \<open>fetchWithAuth\<close>; a missing \<open>method\<close> is \<open>None\<close>. Headers
  are an object used as a bag of names and values: a map, with no order.
\<close>

record options =
  opt_method :: "string option"
  opt_headers :: "string \<rightharpoonup> string"
  opt_body :: "task_body option"

text \<open>One call of \<open>fetch(url, { ...options, headers })\<close>.\<close>

record request =
  req_url :: string
  req_method :: "string option"
  req_headers :: "string \<rightharpoonup> string"
  req_body :: "task_body option"

text \<open>
  What the client reads of a response. \<open>response.text()\<close> and \<open>response.json()\<close> are
  promises that may reject: \<open>Inl\<close> carries the message of the error.
\<close>

record response =
  http_status :: nat
  content_length :: "string option"
  content_type :: "string option"
  body_text :: "string + string"
  body_json :: "string + jsval"

text \<open>\<open>await fetch(...)\<close> either rejects (no answer at all) or resolves to a response.\<close>

datatype fetch_outcome = Rejected string | Responded response

record client =
  localStorage :: storage
  navigated :: "string list"
  fetched :: "request list"
  isAuthenticated :: bool
  tasks :: jsval
  isLoading :: bool
  error :: "string option"
  newTaskTitle :: string
  newTaskDescription :: string
  newTaskStatus :: string
  editingTaskId :: "nat option"
  editTaskTitle :: string
  editTaskDescription :: string
  editTaskStatus :: "string option"

text \<open>
  The state right after \<open>App\<close> and \<open>Dashboard\<close> mount over a given storage: the
  \<open>useState\<close> initial values.
\<close>

definition mounted :: "storage \<Rightarrow> client" where
  "mounted st =
     \<lparr> localStorage = st, navigated = [], fetched = [],
       isAuthenticated = present (st ''token''),
       tasks = JTasks [], isLoading = False, error = None,
       newTaskTitle = [], newTaskDescription = [], newTaskStatus = ''PENDING'',
       editingTaskId = None, editTaskTitle = [], editTaskDescription = [],
       editTaskStatus = Some [] \<rparr>"

section \<open>Strings\<close>

text \<open>\<open>haystack.includes(needle)\<close>.\<close>

primrec str_includes :: "string \<Rightarrow> string \<Rightarrow> bool" where
  "str_includes [] needle = (needle = [])"
| "str_includes (c # cs) needle =
     (take (length needle) (c # cs) = needle \<or> str_includes cs needle)"

text \<open>
  A number inside a template literal. For a non-negative integer up to
  \<open>MAX_SAFE_INTEGER\<close> (a task id the model covers, an HTTP status) JavaScript prints
  its decimal digits, which is what \<open>show_nat\<close> computes; statements about a URL built
  from an id carry that bound.
\<close>

definition digit_char :: "nat \<Rightarrow> char" where
  "digit_char d = ''0123456789'' ! (d mod 10)"

function show_nat :: "nat \<Rightarrow> string" where
  "show_nat n = (if n < 10 then [digit_char n] else show_nat (n div 10) @ [digit_char n])"
  by pat_completeness auto
termination
  by (relation "measure id") auto

declare show_nat.simps [simp del]

definition API_BASE_URL :: string where
  "API_BASE_URL = ''http://localhost:8080''"

section \<open>The gateway: fetchWithAuth\<close>

text \<open>
  \<open>fetchWithAuth\<close> has one suspension point, \<open>await fetch\<close>. The part before it reads the
  token and issues the request; the part after it runs when the outcome arrives. They are
  two functions, so that two calls can be in flight at once; \<open>fetchWithAuth\<close> is the first
  followed at once by the second.
\<close>

text \<open>
  The headers of the request: the two defaults, then \<open>options.headers\<close> spread over them
  (a repeated name takes the later value).
\<close>

definition merge_headers :: "(string \<rightharpoonup> string) \<Rightarrow> (string \<rightharpoonup> string) \<Rightarrow> (string \<rightharpoonup> string)" where
  "merge_headers base custom = base ++ custom"

definition build_request :: "string \<Rightarrow> options \<Rightarrow> string \<Rightarrow> request" where
  "build_request url opts token =
     \<lparr> req_url = url, req_method = opt_method opts,
       req_headers = merge_headers
         [''Content-Type'' \<mapsto> ''application/json'',
          ''Authorization'' \<mapsto> ''Bearer '' @ token]
         (opt_headers opts),
       req_body = opt_body opts \<rparr>"

text \<open>
  Before the \<open>await\<close>. Without a token the function sets the message, navigates and
  \<open>return\<close>s: the caller receives \<open>undefined\<close>, nothing is thrown and nothing is fetched.
\<close>

definition fetchWithAuth_begin :: "string \<Rightarrow> options \<Rightarrow> client \<Rightarrow> request option \<times> client" where
  "fetchWithAuth_begin url opts s =
     (case localStorage s ''token'' of
        None \<Rightarrow>
          (None, s\<lparr>error := Some ''Authentication token not found. Please login again.'',
                   navigated := navigated s @ [''/login'']\<rparr>)
      | Some token \<Rightarrow>
          if token = [] then
            (None, s\<lparr>error := Some ''Authentication token not found. Please login again.'',
                     navigated := navigated s @ [''/login'']\<rparr>)
          else
            (Some (build_request url opts token),
             s\<lparr>fetched := fetched s @ [build_request url opts token]\<rparr>))"

definition ok :: "response \<Rightarrow> bool" where
  "ok r = (200 \<le> http_status r \<and> http_status r \<le> 299)"

text \<open>
  \<open>a || b\<close> on a property that may be missing, and the message of a response that is
  not ok: \<open>errorBody.message || errorBody.error\<close>, or
  the line with the status when the body is not JSON, is \<open>null\<close> (the property read
  throws and is caught) or has neither field.
\<close>

fun or_else :: "string option \<Rightarrow> string \<Rightarrow> string" where
  "or_else None fallback = fallback"
| "or_else (Some v) fallback = (if v \<noteq> [] then v else fallback)"

definition error_message :: "response \<Rightarrow> string" where
  "error_message r =
     (let errorMessage = ''HTTP error! Status: '' @ show_nat (http_status r) in
      case body_json r of
        Inl _ \<Rightarrow> errorMessage
      | Inr (JObject props) \<Rightarrow>
          or_else (map_of props ''message'') (or_else (map_of props ''error'') errorMessage)
      | Inr _ \<Rightarrow> errorMessage)"

text \<open>
  What the \<open>try\<close> block makes of a response that is neither 401 nor 403: \<open>Inl\<close> is the
  message of the error it throws, \<open>Inr\<close> the value it returns.
\<close>

definition decode :: "response \<Rightarrow> string + jsval" where
  "decode r =
     (if \<not> ok r then Inl (error_message r)
      else if content_length r = Some ''0'' \<or> http_status r = 204 then Inr JNull
      else if (case content_type r of None \<Rightarrow> False
               | Some ct \<Rightarrow> ct \<noteq> [] \<and> str_includes ct ''text/plain'')
        then (case body_text r of Inl m \<Rightarrow> Inl m | Inr t \<Rightarrow> Inr (JStr t))
      else body_json r)"

text \<open>The \<open>try\<close> block after the \<open>await\<close>, with the effects of the 401/403 branch.\<close>

definition read_response :: "response \<Rightarrow> client \<Rightarrow> (string + jsval) \<times> client" where
  "read_response r s =
     (if http_status r = 401 \<or> http_status r = 403 then
        (Inl ''Unauthorized'',
         s\<lparr>error := Some ''Session expired or invalid. Please login again.'',
           localStorage := (localStorage s)(''token'' := None),
           navigated := navigated s @ [''/login'']\<rparr>)
      else (decode r, s))"

text \<open>The \<open>catch\<close> block: every message but \<open>Unauthorized\<close> is shown; the error is rethrown.\<close>

definition on_api_error :: "string \<Rightarrow> client \<Rightarrow> (string + jsval) \<times> client" where
  "on_api_error m s =
     (Inl m,
      if m \<noteq> ''Unauthorized'' then
        s\<lparr>error := Some (if m \<noteq> [] then m else ''An error occurred during the API request.'')\<rparr>
      else s)"

definition fetchWithAuth_resume :: "fetch_outcome \<Rightarrow> client \<Rightarrow> (string + jsval) \<times> client" where
  "fetchWithAuth_resume out s =
     (case out of
        Rejected m \<Rightarrow> on_api_error m s
      | Responded r \<Rightarrow>
          (case read_response r s of
             (Inl m, s') \<Rightarrow> on_api_error m s'
           | (Inr v, s') \<Rightarrow> (Inr v, s')))"

definition fetchWithAuth :: "string \<Rightarrow> options \<Rightarrow> fetch_outcome \<Rightarrow> client \<Rightarrow> (string + jsval) \<times> client" where
  "fetchWithAuth url opts out s =
     (case fetchWithAuth_begin url opts s of
        (None, s') \<Rightarrow> (Inr JUndefined, s')
      | (Some req, s') \<Rightarrow> fetchWithAuth_resume out s')"

section \<open>The dashboard's operations\<close>

definition no_options :: options where
  "no_options = \<lparr> opt_method = None, opt_headers = Map.empty, opt_body = None \<rparr>"

text \<open>\<open>fetchTasks\<close> catches whatever the gateway throws; it never throws itself.\<close>

definition fetchTasks :: "fetch_outcome \<Rightarrow> client \<Rightarrow> client" where
  "fetchTasks out s =
     (let s1 = s\<lparr>isLoading := True, error := None\<rparr> in
      case fetchWithAuth (API_BASE_URL @ ''/tasks'') no_options out s1 of
        (Inr data, s2) \<Rightarrow>
          (if truthy data then s2\<lparr>tasks := data\<rparr> else s2\<lparr>tasks := JTasks []\<rparr>)
            \<lparr>isLoading := False\<rparr>
      | (Inl _, s2) \<Rightarrow> s2\<lparr>isLoading := False\<rparr>)"

text \<open>
  \<open>handleCreateTask\<close>: the first outcome answers the POST, the second the GET of the
  reload, which is only issued when the POST did not throw.
\<close>

definition handleCreateTask :: "fetch_outcome \<Rightarrow> fetch_outcome \<Rightarrow> client \<Rightarrow> client" where
  "handleCreateTask post get s =
     (let s1 = s\<lparr>isLoading := True, error := None\<rparr>;
          completedStatus = (newTaskStatus s = ''COMPLETED'');
          newTask = \<lparr> body_title = newTaskTitle s, body_description = newTaskDescription s,
                      body_completed = completedStatus \<rparr>
      in
      case fetchWithAuth (API_BASE_URL @ ''/tasks'')
             \<lparr> opt_method = Some ''POST'',
               opt_headers = [''Content-Type'' \<mapsto> ''application/json''],
               opt_body = Some newTask \<rparr> post s1 of
        (Inr _, s2) \<Rightarrow>
          (fetchTasks get
             (s2\<lparr>newTaskTitle := [], newTaskDescription := [], newTaskStatus := ''PENDING''\<rparr>))
            \<lparr>isLoading := False\<rparr>
      | (Inl _, s2) \<Rightarrow> s2\<lparr>isLoading := False\<rparr>)"

text \<open>\<open>handleDeleteTask\<close>: \<open>confirmed\<close> is the answer of \<open>window.confirm\<close>.\<close>

definition handleDeleteTask :: "nat \<Rightarrow> bool \<Rightarrow> fetch_outcome \<Rightarrow> fetch_outcome \<Rightarrow> client \<Rightarrow> client" where
  "handleDeleteTask taskId confirmed del get s =
     (if \<not> confirmed then s
      else
        let s1 = s\<lparr>isLoading := True, error := None\<rparr> in
        case fetchWithAuth (API_BASE_URL @ ''/tasks/'' @ show_nat taskId)
               \<lparr> opt_method = Some ''DELETE'', opt_headers = Map.empty, opt_body = None \<rparr> del s1 of
          (Inr _, s2) \<Rightarrow> (fetchTasks get s2)\<lparr>isLoading := False\<rparr>
        | (Inl _, s2) \<Rightarrow> s2\<lparr>isLoading := False\<rparr>)"

definition handleStartEdit :: "task \<Rightarrow> client \<Rightarrow> client" where
  "handleStartEdit t s =
     s\<lparr>editingTaskId := Some (task_id t), editTaskTitle := title t,
       editTaskDescription := description t, editTaskStatus := status t\<rparr>"

definition handleCancelEdit :: "client \<Rightarrow> client" where
  "handleCancelEdit s = s\<lparr>editingTaskId := None\<rparr>"

text \<open>\<open>!editingTaskId\<close>: \<open>null\<close> and the number 0 are falsy.\<close>

fun editing :: "nat option \<Rightarrow> bool" where
  "editing None = False"
| "editing (Some i) = (i \<noteq> 0)"

definition handleUpdateTask :: "fetch_outcome \<Rightarrow> fetch_outcome \<Rightarrow> client \<Rightarrow> client" where
  "handleUpdateTask put get s =
     (case editingTaskId s of
        None \<Rightarrow> s
      | Some taskId \<Rightarrow>
          if taskId = 0 then s
          else
           (let s1 = s\<lparr>isLoading := True, error := None\<rparr>;
                completedStatus =
                  (if editTaskStatus s = Some ''COMPLETED'' then True
                   else if editTaskStatus s = Some ''PENDING'' then False
                   else False);
                updatedTask = \<lparr> body_title = editTaskTitle s,
                                body_description = editTaskDescription s,
                                body_completed = completedStatus \<rparr>
            in
            case fetchWithAuth (API_BASE_URL @ ''/tasks/'' @ show_nat taskId)
                   \<lparr> opt_method = Some ''PUT'',
                     opt_headers = [''Content-Type'' \<mapsto> ''application/json''],
                     opt_body = Some updatedTask \<rparr> put s1 of
              (Inr _, s2) \<Rightarrow> (fetchTasks get (s2\<lparr>editingTaskId := None\<rparr>))\<lparr>isLoading := False\<rparr>
            | (Inl _, s2) \<Rightarrow> s2\<lparr>isLoading := False\<rparr>))"

section \<open>What the dashboard renders\<close>

text \<open>
  The status badge of a list item prints \<open>{task.status}\<close> (nothing when the field is
  missing) and takes the green classes exactly for the string \<open>COMPLETED\<close>; the two
  counters filter on \<open>task.completed === true\<close> and \<open>task.completed === false\<close>.
\<close>

definition badge_text :: "task \<Rightarrow> string" where
  "badge_text t = (case status t of None \<Rightarrow> [] | Some st \<Rightarrow> st)"

definition badge_class :: "task \<Rightarrow> string" where
  "badge_class t =
     (if status t = Some ''COMPLETED'' then ''bg-green-100 text-green-800''
      else ''bg-blue-100 text-blue-800'')"

definition completed_count :: "task list \<Rightarrow> nat" where
  "completed_count ts = length (filter (\<lambda>t. completed t = Some True) ts)"

definition pending_count :: "task list \<Rightarrow> nat" where
  "pending_count ts = length (filter (\<lambda>t. completed t = Some False) ts)"

section \<open>The buttons and forms in front of the handlers\<close>

text \<open>
  The handlers are reached through the rendered elements. The Edit and Delete buttons and
  the two submit buttons carry \<open>disabled={isLoading}\<close>; the title inputs of the create
  form and of the edit modal carry \<open>required\<close>, so the browser does not raise the submit
  event while the title is empty; the modal exists only while \<open>editingTaskId\<close> is truthy.
  (The status selects are \<open>required\<close> too, but both of their options are non-empty.)
\<close>

definition click_edit :: "task \<Rightarrow> client \<Rightarrow> client" where
  "click_edit t s = (if isLoading s then s else handleStartEdit t s)"

definition click_delete :: "nat \<Rightarrow> bool \<Rightarrow> fetch_outcome \<Rightarrow> fetch_outcome \<Rightarrow> client \<Rightarrow> client" where
  "click_delete taskId confirmed del get s =
     (if isLoading s then s else handleDeleteTask taskId confirmed del get s)"

definition submit_create_form :: "fetch_outcome \<Rightarrow> fetch_outcome \<Rightarrow> client \<Rightarrow> client" where
  "submit_create_form post get s =
     (if isLoading s \<or> newTaskTitle s = [] then s else handleCreateTask post get s)"

definition submit_edit_form :: "fetch_outcome \<Rightarrow> fetch_outcome \<Rightarrow> client \<Rightarrow> client" where
  "submit_edit_form put get s =
     (if \<not> editing (editingTaskId s) \<or> isLoading s \<or> editTaskTitle s = [] then s
      else handleUpdateTask put get s)"

text \<open>The \<open>onChange\<close> handlers of the edit modal, one per field of the draft.\<close>

datatype draft_change = TypeTitle string | TypeDescription string | ChooseStatus string

fun change_draft :: "client \<Rightarrow> draft_change \<Rightarrow> client" where
  "change_draft s (TypeTitle v) = s\<lparr>editTaskTitle := v\<rparr>"
| "change_draft s (TypeDescription v) = s\<lparr>editTaskDescription := v\<rparr>"
| "change_draft s (ChooseStatus v) = s\<lparr>editTaskStatus := Some v\<rparr>"

section \<open>Sequences of operations\<close>

text \<open>
  An operation as the user performs it: fill the create form and submit it; open the edit
  modal on a task, set its three fields and save; delete a task and answer the prompt.
  Each carries the outcome of its own request and of the reload that follows.
\<close>

datatype operation =
    Create string string string fetch_outcome fetch_outcome
  | Update task string string string fetch_outcome fetch_outcome
  | Delete nat bool fetch_outcome fetch_outcome

fun perform :: "client \<Rightarrow> operation \<Rightarrow> client" where
  "perform s (Create ttl descr st post get) =
     handleCreateTask post get
       (s\<lparr>newTaskTitle := ttl, newTaskDescription := descr, newTaskStatus := st\<rparr>)"
| "perform s (Update t ttl descr st put get) =
     handleUpdateTask put get
       (foldl change_draft (handleStartEdit t s)
          [TypeTitle ttl, TypeDescription descr, ChooseStatus st])"
| "perform s (Delete taskId confirmed del get) = handleDeleteTask taskId confirmed del get s"

definition run :: "client \<Rightarrow> operation list \<Rightarrow> client" where
  "run s ops = foldl perform s ops"

text \<open>
  What the gateway hands back for an outcome, \<open>None\<close> when it throws; and the task
  collection inside it, when the value is a JSON array of tasks.
\<close>

fun gateway_value :: "fetch_outcome \<Rightarrow> jsval option" where
  "gateway_value (Rejected m) = None"
| "gateway_value (Responded r) =
     (if http_status r = 401 \<or> http_status r = 403 then None
      else case decode r of Inl m \<Rightarrow> None | Inr v \<Rightarrow> Some v)"

fun collection :: "fetch_outcome \<Rightarrow> task list option" where
  "collection out = (case gateway_value out of Some (JTasks ts) \<Rightarrow> Some ts | _ \<Rightarrow> None)"

fun reload_of :: "operation \<Rightarrow> fetch_outcome" where
  "reload_of (Create ttl descr st post get) = get"
| "reload_of (Update t ttl descr st put get) = get"
| "reload_of (Delete taskId confirmed del get) = get"

text \<open>
  An operation succeeds when it is really sent (an edit needs a truthy task id, a delete
  the user's confirmation), its own request returns and the reload delivers a collection.
\<close>

fun succeeds :: "operation \<Rightarrow> bool" where
  "succeeds (Create ttl descr st post get) =
     (gateway_value post \<noteq> None \<and> collection get \<noteq> None)"
| "succeeds (Update t ttl descr st put get) =
     (task_id t \<noteq> 0 \<and> gateway_value put \<noteq> None \<and> collection get \<noteq> None)"
| "succeeds (Delete taskId confirmed del get) =
     (confirmed \<and> gateway_value del \<noteq> None \<and> collection get \<noteq> None)"

definition has_token :: "client \<Rightarrow> bool" where
  "has_token s = present (localStorage s ''token'')"

section \<open>App and Login\<close>

definition updateAuthStatus :: "client \<Rightarrow> client" where
  "updateAuthStatus s = s\<lparr>isAuthenticated := present (localStorage s ''token'')\<rparr>"

definition handleLogout :: "client \<Rightarrow> client" where
  "handleLogout s =
     (let s1 = s\<lparr>localStorage := (localStorage s)(''token'' := None)\<rparr>;
          s2 = updateAuthStatus s1
      in s2\<lparr>navigated := navigated s2 @ [''/login'']\<rparr>)"

record login_form =
  email :: string
  password :: string
  rememberMe :: bool

definition Login_initial :: login_form where
  "Login_initial = \<lparr> email = [], password = [], rememberMe = False \<rparr>"

text \<open>The effect that runs once when \<open>Login\<close> mounts.\<close>

definition Login_mount :: "storage \<Rightarrow> login_form \<Rightarrow> login_form" where
  "Login_mount st f =
     (case st ''rememberedEmail'' of
        None \<Rightarrow> f
      | Some storedEmail \<Rightarrow>
          if storedEmail \<noteq> [] then f\<lparr>email := storedEmail, rememberMe := True\<rparr> else f)"

section \<open>Concrete data used below\<close>

definition json_response :: "nat \<Rightarrow> jsval \<Rightarrow> response" where
  "json_response code v =
     \<lparr> http_status = code, content_length = None,
       content_type = Some ''application/json'', body_text = Inr [], body_json = Inr v \<rparr>"

definition task_one :: task where
  "task_one = \<lparr> task_id = 1, title = ''X'', description = [], completed = Some False,
                 status = Some ''PENDING'' \<rparr>"

definition task_two :: task where
  "task_two = \<lparr> task_id = 2, title = ''Y'', description = ''second'', completed = Some True,
                 status = Some ''COMPLETED'' \<rparr>"

definition task_three :: task where
  "task_three = \<lparr> task_id = 3, title = ''Z'', description = [], completed = None,
                   status = None \<rparr>"

definition signed_in :: client where
  "signed_in = mounted (Map.empty(''token'' \<mapsto> ''abc''))"

definition ops_demo :: "operation list" where
  "ops_demo =
     [Create ''X'' [] ''PENDING'' (Responded (json_response 201 (JObject [])))
        (Responded (json_response 200 (JTasks [task_one]))),
      Update task_one ''X2'' [] ''COMPLETED'' (Responded (json_response 200 (JObject [])))
        (Responded (json_response 200 (JTasks [task_one, task_two]))),
      Delete 1 True (Responded (json_response 204 JNull))
        (Responded (json_response 200 (JTasks [task_two])))]"

text \<open>
  A 401 answer; the dashboard with one task loaded; the same dashboard after a later load
  was answered 401; the dashboard while a load is in flight; two loads in flight at once;
  an application whose storage also holds a remembered e-mail.
\<close>

definition unauthorized_response :: response where
  "unauthorized_response =
     \<lparr> http_status = 401, content_length = None, content_type = None,
       body_text = Inr [], body_json = Inl ''Unexpected end of JSON input'' \<rparr>"

definition tasks_url :: string where
  "tasks_url = API_BASE_URL @ ''/tasks''"

definition two_in_flight :: client where
  "two_in_flight =
     snd (fetchWithAuth_begin tasks_url no_options
       (snd (fetchWithAuth_begin tasks_url no_options signed_in)))"

definition loaded :: client where
  "loaded = fetchTasks (Responded (json_response 200 (JTasks [task_one]))) signed_in"

definition session_expired :: client where
  "session_expired = fetchTasks (Responded unauthorized_response) loaded"

definition load_in_flight :: client where
  "load_in_flight =
     snd (fetchWithAuth_begin tasks_url no_options (loaded\<lparr>isLoading := True, error := None\<rparr>))"

definition remembered :: client where
  "remembered = mounted (Map.empty(''token'' \<mapsto> ''abc'', ''rememberedEmail'' \<mapsto> ''ann@example.org''))"

section \<open>Facts about the gateway\<close>

lemma fetchWithAuth_with_token:
  "localStorage s ''token'' = Some tok \<Longrightarrow> tok \<noteq> [] \<Longrightarrow>
   fetchWithAuth url opts out s =
     fetchWithAuth_resume out (s\<lparr>fetched := fetched s @ [build_request url opts tok]\<rparr>)"
  by (simp add: fetchWithAuth_def fetchWithAuth_begin_def)

lemma fetchWithAuth_without_token:
  "\<not> present (localStorage s ''token'') \<Longrightarrow>
   fetchWithAuth url opts out s =
     (Inr JUndefined,
      s\<lparr>error := Some ''Authentication token not found. Please login again.'',
        navigated := navigated s @ [''/login'']\<rparr>)"
  by (cases "localStorage s ''token''") (simp_all add: fetchWithAuth_def fetchWithAuth_begin_def)

lemma resume_returns:
  "gateway_value out = Some v \<Longrightarrow> fetchWithAuth_resume out s = (Inr v, s)"
  by (cases out)
     (auto simp: fetchWithAuth_resume_def read_response_def split: if_splits sum.splits)

lemma resume_unauthorized:
  "http_status r = 401 \<or> http_status r = 403 \<Longrightarrow>
   fetchWithAuth_resume (Responded r) s =
     (Inl ''Unauthorized'',
      s\<lparr>error := Some ''Session expired or invalid. Please login again.'',
        localStorage := (localStorage s)(''token'' := None),
        navigated := navigated s @ [''/login'']\<rparr>)"
  by (auto simp: fetchWithAuth_resume_def read_response_def on_api_error_def)

lemma resume_throws:
  "gateway_value out = None \<Longrightarrow>
   \<exists>m s'. fetchWithAuth_resume out s = (Inl m, s') \<and> tasks s' = tasks s \<and> fetched s' = fetched s"
  by (cases out)
     (auto simp: fetchWithAuth_resume_def read_response_def on_api_error_def
           split: if_splits sum.splits)

lemma fetchTasks_delivers:
  assumes "localStorage s ''token'' = Some tok" "tok \<noteq> []" "collection get = Some ts"
  shows "fetchTasks get s =
     s\<lparr>isLoading := False, error := None, tasks := JTasks ts,
       fetched := fetched s @ [build_request (API_BASE_URL @ ''/tasks'') no_options tok]\<rparr>"
proof -
  from assms(3) have "gateway_value get = Some (JTasks ts)"
    by (auto split: option.splits jsval.splits)
  then show ?thesis using assms(1,2)
    by (simp add: fetchTasks_def fetchWithAuth_with_token resume_returns)
qed


lemma resume_frame:
  "fetchWithAuth_resume out s = (res, s') \<Longrightarrow>
   fetched s' = fetched s \<and> tasks s' = tasks s \<and> editingTaskId s' = editingTaskId s \<and>
   isAuthenticated s' = isAuthenticated s"
  by (cases out)
     (auto simp: fetchWithAuth_resume_def read_response_def on_api_error_def
           split: if_splits sum.splits)

lemma fetchWithAuth_frame:
  "fetchWithAuth url opts out s = (res, s') \<Longrightarrow>
   (\<exists>rest. fetched s' = fetched s @ rest) \<and> tasks s' = tasks s \<and>
   editingTaskId s' = editingTaskId s \<and> isAuthenticated s' = isAuthenticated s"
  by (auto simp: fetchWithAuth_def fetchWithAuth_begin_def
           split: option.splits if_splits dest!: resume_frame)

lemma fetchTasks_frame:
  "(\<exists>rest. fetched (fetchTasks out s) = fetched s @ rest) \<and>
   editingTaskId (fetchTasks out s) = editingTaskId s \<and>
   isAuthenticated (fetchTasks out s) = isAuthenticated s"
proof -
  obtain res s' where f: "fetchWithAuth (API_BASE_URL @ ''/tasks'') no_options out
      (s\<lparr>isLoading := True, error := None\<rparr>) = (res, s')"
    by (cases "fetchWithAuth (API_BASE_URL @ ''/tasks'') no_options out
      (s\<lparr>isLoading := True, error := None\<rparr>)") auto
  from fetchWithAuth_frame [OF f] f show ?thesis
    by (auto simp: fetchTasks_def split: sum.splits)
qed

lemma fetchWithAuth_throws:
  assumes "has_token s" and "gateway_value out = None"
  shows "\<exists>m s'. fetchWithAuth url opts out s = (Inl m, s') \<and> tasks s' = tasks s"
proof -
  from assms(1) obtain tk where tk: "localStorage s ''token'' = Some tk" "tk \<noteq> []"
    by (cases "localStorage s ''token''") (auto simp: has_token_def)
  from resume_throws [OF assms(2), of "s\<lparr>fetched := fetched s @ [build_request url opts tk]\<rparr>"]
  show ?thesis using tk by (auto simp: fetchWithAuth_with_token)
qed

lemma status_chain: "(if c then True else if d then False else False) = c"
  by simp

lemma handleUpdateTask_unfold:
  assumes "editingTaskId s = Some taskId" "taskId \<noteq> 0"
  shows "handleUpdateTask put get s =
     (case fetchWithAuth (API_BASE_URL @ ''/tasks/'' @ show_nat taskId)
             \<lparr> opt_method = Some ''PUT'',
               opt_headers = [''Content-Type'' \<mapsto> ''application/json''],
               opt_body = Some \<lparr> body_title = editTaskTitle s,
                 body_description = editTaskDescription s,
                 body_completed = (editTaskStatus s = Some ''COMPLETED'') \<rparr> \<rparr>
             put (s\<lparr>isLoading := True, error := None\<rparr>) of
        (Inr _, s2) \<Rightarrow> (fetchTasks get (s2\<lparr>editingTaskId := None\<rparr>))\<lparr>isLoading := False\<rparr>
      | (Inl _, s2) \<Rightarrow> s2\<lparr>isLoading := False\<rparr>)"
  using assms by (simp add: handleUpdateTask_def status_chain split del: if_split)

lemma handleCreateTask_sends:
  assumes "localStorage s ''token'' = Some tok" "tok \<noteq> []"
  shows "\<exists>rest. fetched (handleCreateTask post get s) =
           fetched s @
           build_request (API_BASE_URL @ ''/tasks'')
             \<lparr> opt_method = Some ''POST'',
               opt_headers = [''Content-Type'' \<mapsto> ''application/json''],
               opt_body = Some \<lparr> body_title = newTaskTitle s,
                 body_description = newTaskDescription s,
                 body_completed = (newTaskStatus s = ''COMPLETED'') \<rparr> \<rparr> tok # rest"
proof -
  let ?req = "build_request (API_BASE_URL @ ''/tasks'')
             \<lparr> opt_method = Some ''POST'',
               opt_headers = [''Content-Type'' \<mapsto> ''application/json''],
               opt_body = Some \<lparr> body_title = newTaskTitle s,
                 body_description = newTaskDescription s,
                 body_completed = (newTaskStatus s = ''COMPLETED'') \<rparr> \<rparr> tok"
  let ?s1 = "s\<lparr>isLoading := True, error := None, fetched := fetched s @ [?req]\<rparr>"
  obtain res s2 where r: "fetchWithAuth_resume post ?s1 = (res, s2)"
    by (cases "fetchWithAuth_resume post ?s1") auto
  from resume_frame [OF r] have f2: "fetched s2 = fetched s @ [?req]" by simp
  show ?thesis
  proof (cases res)
    case (Inl m)
    with assms r f2 show ?thesis
      by (simp add: handleCreateTask_def fetchWithAuth_with_token)
  next
    case (Inr v)
    obtain rest where "fetched (fetchTasks get
        (s2\<lparr>newTaskTitle := [], newTaskDescription := [], newTaskStatus := ''PENDING''\<rparr>))
        = fetched s2 @ rest"
      using fetchTasks_frame
        [of get "s2\<lparr>newTaskTitle := [], newTaskDescription := [], newTaskStatus := ''PENDING''\<rparr>"]
      by auto
    with Inr assms r f2 show ?thesis
      by (simp add: handleCreateTask_def fetchWithAuth_with_token)
  qed
qed

lemma handleUpdateTask_sends:
  assumes "localStorage s ''token'' = Some tok" "tok \<noteq> []"
    and "editingTaskId s = Some taskId" "taskId \<noteq> 0"
  shows "\<exists>rest. fetched (handleUpdateTask put get s) =
           fetched s @
           build_request (API_BASE_URL @ ''/tasks/'' @ show_nat taskId)
             \<lparr> opt_method = Some ''PUT'',
               opt_headers = [''Content-Type'' \<mapsto> ''application/json''],
               opt_body = Some \<lparr> body_title = editTaskTitle s,
                 body_description = editTaskDescription s,
                 body_completed = (editTaskStatus s = Some ''COMPLETED'') \<rparr> \<rparr> tok # rest"
proof -
  define req where "req = build_request (API_BASE_URL @ ''/tasks/'' @ show_nat taskId)
             \<lparr> opt_method = Some ''PUT'',
               opt_headers = [''Content-Type'' \<mapsto> ''application/json''],
               opt_body = Some \<lparr> body_title = editTaskTitle s,
                 body_description = editTaskDescription s,
                 body_completed = (editTaskStatus s = Some ''COMPLETED'') \<rparr> \<rparr> tok"
  define s1 where "s1 = s\<lparr>isLoading := True, error := None, fetched := fetched s @ [req]\<rparr>"
  have eq: "handleUpdateTask put get s =
      (case fetchWithAuth_resume put s1 of
         (Inr _, s2) \<Rightarrow> (fetchTasks get (s2\<lparr>editingTaskId := None\<rparr>))\<lparr>isLoading := False\<rparr>
       | (Inl _, s2) \<Rightarrow> s2\<lparr>isLoading := False\<rparr>)"
    using assms by (simp add: handleUpdateTask_def fetchWithAuth_with_token s1_def req_def)
  obtain res s2 where r: "fetchWithAuth_resume put s1 = (res, s2)"
    by (cases "fetchWithAuth_resume put s1") auto
  from resume_frame [OF r] have f2: "fetched s2 = fetched s @ [req]" by (simp add: s1_def)
  obtain rest where rest: "fetched (fetchTasks get (s2\<lparr>editingTaskId := None\<rparr>)) = fetched s2 @ rest"
    using fetchTasks_frame [of get "s2\<lparr>editingTaskId := None\<rparr>"] by auto
  have "\<exists>rest. fetched (handleUpdateTask put get s) = fetched s @ req # rest"
    unfolding eq r using f2 rest by (cases res) simp_all
  then show ?thesis by (simp only: req_def)
qed

lemma handleUpdateTask_closes:
  assumes "localStorage s ''token'' = Some tok" "tok \<noteq> []"
    and "editingTaskId s = Some taskId" "taskId \<noteq> 0" "gateway_value put = Some v"
  shows "editingTaskId (handleUpdateTask put get s) = None"
  using assms fetchTasks_frame
  by (simp add: handleUpdateTask_def fetchWithAuth_with_token resume_returns)

lemma handleDeleteTask_sends:
  assumes "localStorage s ''token'' = Some tok" "tok \<noteq> []"
  shows "\<exists>rest. fetched (handleDeleteTask taskId True del get s) =
           fetched s @
           build_request (API_BASE_URL @ ''/tasks/'' @ show_nat taskId)
             \<lparr> opt_method = Some ''DELETE'', opt_headers = Map.empty, opt_body = None \<rparr> tok # rest"
proof -
  define req where "req = build_request (API_BASE_URL @ ''/tasks/'' @ show_nat taskId)
             \<lparr> opt_method = Some ''DELETE'', opt_headers = Map.empty, opt_body = None \<rparr> tok"
  define s1 where "s1 = s\<lparr>isLoading := True, error := None, fetched := fetched s @ [req]\<rparr>"
  have eq: "handleDeleteTask taskId True del get s =
      (case fetchWithAuth_resume del s1 of
         (Inr _, s2) \<Rightarrow> (fetchTasks get s2)\<lparr>isLoading := False\<rparr>
       | (Inl _, s2) \<Rightarrow> s2\<lparr>isLoading := False\<rparr>)"
    using assms by (simp add: handleDeleteTask_def fetchWithAuth_with_token s1_def req_def)
  obtain res s2 where r: "fetchWithAuth_resume del s1 = (res, s2)"
    by (cases "fetchWithAuth_resume del s1") auto
  from resume_frame [OF r] have f2: "fetched s2 = fetched s @ [req]" by (simp add: s1_def)
  obtain rest where rest: "fetched (fetchTasks get s2) = fetched s2 @ rest"
    using fetchTasks_frame [of get s2] by auto
  have "\<exists>rest. fetched (handleDeleteTask taskId True del get s) = fetched s @ req # rest"
    unfolding eq r using f2 rest by (cases res) simp_all
  then show ?thesis by (simp only: req_def)
qed

lemma loaded_state:
  "loaded = signed_in\<lparr>tasks := JTasks [task_one],
      fetched := [build_request (API_BASE_URL @ ''/tasks'') no_options ''abc'']\<rparr>"
  by (simp add: loaded_def signed_in_def mounted_def fetchTasks_delivers [where tok = "''abc''"]
      json_response_def decode_def ok_def)

lemma session_expired_state:
  "session_expired = loaded\<lparr>
      error := Some ''Session expired or invalid. Please login again.'',
      localStorage := Map.empty, navigated := [''/login''],
      fetched := [build_request (API_BASE_URL @ ''/tasks'') no_options ''abc'',
                  build_request (API_BASE_URL @ ''/tasks'') no_options ''abc'']\<rparr>"
  by (simp add: session_expired_def loaded_state signed_in_def mounted_def fetchTasks_def
      fetchWithAuth_with_token [where tok = "''abc''"] resume_unauthorized
      unauthorized_response_def)

lemma fetchTasks_sends:
  assumes "localStorage s ''token'' = Some tok" "tok \<noteq> []"
  shows "fetched (fetchTasks out s) =
           fetched s @ [build_request (API_BASE_URL @ ''/tasks'') no_options tok]"
proof -
  define req where "req = build_request (API_BASE_URL @ ''/tasks'') no_options tok"
  define s1 where "s1 = s\<lparr>isLoading := True, error := None, fetched := fetched s @ [req]\<rparr>"
  have eq: "fetchTasks out s =
      (case fetchWithAuth_resume out s1 of
         (Inr data, s2) \<Rightarrow>
           (if truthy data then s2\<lparr>tasks := data\<rparr> else s2\<lparr>tasks := JTasks []\<rparr>)
             \<lparr>isLoading := False\<rparr>
       | (Inl _, s2) \<Rightarrow> s2\<lparr>isLoading := False\<rparr>)"
    using assms by (simp add: fetchTasks_def fetchWithAuth_with_token s1_def req_def)
  obtain res s2 where r: "fetchWithAuth_resume out s1 = (res, s2)"
    by (cases "fetchWithAuth_resume out s1") auto
  from resume_frame [OF r] have f2: "fetched s2 = fetched s @ [req]" by (simp add: s1_def)
  have "fetched (fetchTasks out s) = fetched s @ [req]"
    unfolding eq r using f2 by (cases res) simp_all
  then show ?thesis by (simp only: req_def)
qed

lemma handleUpdateTask_commits:
  assumes "localStorage s ''token'' = Some tok" "tok \<noteq> []"
    and "editingTaskId s = Some taskId" "taskId \<noteq> 0" "gateway_value put = Some v"
  shows "fetched (handleUpdateTask put get s) =
           fetched s @
           [build_request (API_BASE_URL @ ''/tasks/'' @ show_nat taskId)
              \<lparr> opt_method = Some ''PUT'',
                opt_headers = [''Content-Type'' \<mapsto> ''application/json''],
                opt_body = Some \<lparr> body_title = editTaskTitle s,
                  body_description = editTaskDescription s,
                  body_completed = (editTaskStatus s = Some ''COMPLETED'') \<rparr> \<rparr> tok,
            build_request (API_BASE_URL @ ''/tasks'') no_options tok]"
proof -
  define req where "req = build_request (API_BASE_URL @ ''/tasks/'' @ show_nat taskId)
              \<lparr> opt_method = Some ''PUT'',
                opt_headers = [''Content-Type'' \<mapsto> ''application/json''],
                opt_body = Some \<lparr> body_title = editTaskTitle s,
                  body_description = editTaskDescription s,
                  body_completed = (editTaskStatus s = Some ''COMPLETED'') \<rparr> \<rparr> tok"
  define s2 where "s2 = s\<lparr>isLoading := True, error := None, fetched := fetched s @ [req],
      editingTaskId := None\<rparr>"
  have eq: "handleUpdateTask put get s = (fetchTasks get s2)\<lparr>isLoading := False\<rparr>"
    using assms
    by (simp add: handleUpdateTask_unfold fetchWithAuth_with_token resume_returns s2_def req_def)
  have tok2: "localStorage s2 ''token'' = Some tok" using assms(1) by (simp add: s2_def)
  have "fetched (handleUpdateTask put get s) = fetched s @ [req,
      build_request (API_BASE_URL @ ''/tasks'') no_options tok]"
    unfolding eq using fetchTasks_sends [OF tok2 assms(2), of get] by (simp add: s2_def)
  then show ?thesis by (simp only: req_def)
qed

lemma fetchTasks_clears_flag: "isLoading (fetchTasks out s) = False"
  by (simp add: fetchTasks_def split: prod.splits sum.splits)

lemma handlers_clear_flag:
  "isLoading (handleCreateTask post get s) = False"
  "isLoading (handleDeleteTask taskId True del get s) = False"
  "editing (editingTaskId s) \<Longrightarrow> isLoading (handleUpdateTask put get s) = False"
proof -
  show "isLoading (handleCreateTask post get s) = False"
    by (simp add: handleCreateTask_def split: prod.splits sum.splits)
  show "isLoading (handleDeleteTask taskId True del get s) = False"
    by (simp add: handleDeleteTask_def split: prod.splits sum.splits)
  show "isLoading (handleUpdateTask put get s) = False" if "editing (editingTaskId s)"
  proof -
    from that obtain i where i: "editingTaskId s = Some i" "i \<noteq> 0"
      by (cases "editingTaskId s") auto
    show ?thesis
      by (simp add: handleUpdateTask_unfold [OF i] split: prod.splits sum.splits)
  qed
qed

lemma handlers_ignore_flag:
  "handleCreateTask post get (s\<lparr>isLoading := b\<rparr>) = handleCreateTask post get s"
  "handleDeleteTask taskId True del get (s\<lparr>isLoading := b\<rparr>)
     = handleDeleteTask taskId True del get s"
  "editing (editingTaskId s) \<Longrightarrow>
     handleUpdateTask put get (s\<lparr>isLoading := b\<rparr>) = handleUpdateTask put get s"
proof -
  show "handleCreateTask post get (s\<lparr>isLoading := b\<rparr>) = handleCreateTask post get s"
    by (simp add: handleCreateTask_def)
  show "handleDeleteTask taskId True del get (s\<lparr>isLoading := b\<rparr>)
     = handleDeleteTask taskId True del get s"
    by (simp add: handleDeleteTask_def)
  show "handleUpdateTask put get (s\<lparr>isLoading := b\<rparr>) = handleUpdateTask put get s"
    if "editing (editingTaskId s)"
  proof -
    from that obtain i where i: "editingTaskId s = Some i" "i \<noteq> 0"
      by (cases "editingTaskId s") auto
    then have i': "editingTaskId (s\<lparr>isLoading := b\<rparr>) = Some i" by simp
    show ?thesis
      by (simp add: handleUpdateTask_unfold [OF i] handleUpdateTask_unfold [OF i' i(2)])
  qed
qed

lemma show_nat_2: "show_nat 2 = ''2''"
  by (simp add: show_nat.simps digit_char_def)

section \<open>Reconciliation after a mutation\<close>

lemma collection_value:
  "collection out = Some ts \<Longrightarrow> gateway_value out = Some (JTasks ts)"
  by (auto split: option.splits jsval.splits)

lemma perform_succeeds:
  assumes tok: "has_token s" and ok: "succeeds op" and coll: "collection (reload_of op) = Some ts"
  shows "tasks (perform s op) = JTasks ts \<and> localStorage (perform s op) = localStorage s"
proof -
  from tok obtain tk where tk: "localStorage s ''token'' = Some tk" "tk \<noteq> []"
    by (cases "localStorage s ''token''") (auto simp: has_token_def)
  show ?thesis
  proof (cases op)
    case (Create ttl descr st post get)
    with ok coll obtain v where "gateway_value post = Some v" "collection get = Some ts"
      by auto
    with tk Create show ?thesis
      by (simp add: handleCreateTask_def fetchWithAuth_with_token resume_returns
          fetchTasks_delivers)
  next
    case (Update t ttl descr st put get)
    with ok coll obtain v where "task_id t \<noteq> 0" "gateway_value put = Some v"
      "collection get = Some ts"
      by auto
    with tk Update show ?thesis
      by (simp add: handleUpdateTask_def handleStartEdit_def fetchWithAuth_with_token
          resume_returns fetchTasks_delivers)
  next
    case (Delete taskId confirmed del get)
    with ok coll obtain v where "confirmed" "gateway_value del = Some v"
      "collection get = Some ts"
      by auto
    with tk Delete show ?thesis
      by (simp add: handleDeleteTask_def fetchWithAuth_with_token resume_returns
          fetchTasks_delivers)
  qed
qed

lemma succeeds_collection: "succeeds op \<Longrightarrow> \<exists>ts. collection (reload_of op) = Some ts"
  by (cases op) auto

lemma run_keeps_token:
  "has_token s \<Longrightarrow> list_all succeeds ops \<Longrightarrow> localStorage (run s ops) = localStorage s"
proof (induction ops rule: rev_induct)
  case Nil
  then show ?case by (simp add: run_def)
next
  case (snoc op ops)
  then have keep: "localStorage (run s ops) = localStorage s" by simp
  with snoc.prems have tok: "has_token (run s ops)" by (simp add: has_token_def)
  from snoc.prems have "succeeds op" by simp
  then obtain ts where "collection (reload_of op) = Some ts"
    using succeeds_collection by blast
  with tok \<open>succeeds op\<close> have "localStorage (perform (run s ops) op) = localStorage (run s ops)"
    using perform_succeeds by blast
  with keep show ?case by (simp add: run_def)
qed

text \<open>
  Claim C1. For every sequence of create, update and delete operations that all succeed,
  the local task collection after the reconciling reload is exactly the collection that
  the last \<open>GET /tasks\<close> delivered: the list is replaced as a whole, whatever it held
  before and whatever the earlier operations of the sequence loaded.
\<close>

theorem reload_replaces_collection:
  assumes "has_token s" and "ops \<noteq> []" and "list_all succeeds ops"
  shows "\<exists>ts. collection (reload_of (last ops)) = Some ts \<and> tasks (run s ops) = JTasks ts"
proof -
  from assms(2) obtain ops' op where split: "ops = ops' @ [op]"
    by (cases ops rule: rev_cases) auto
  with assms(3) have pre: "list_all succeeds ops'" and last: "succeeds op" by simp_all
  from assms(1) pre have "has_token (run s ops')"
    using run_keeps_token by (simp add: has_token_def)
  moreover from last obtain ts where ts: "collection (reload_of op) = Some ts"
    using succeeds_collection by blast
  ultimately have "tasks (perform (run s ops') op) = JTasks ts"
    using last perform_succeeds by blast
  with ts split show ?thesis by (simp add: run_def)
qed

lemma ops_demo_succeed: "list_all succeeds ops_demo"
  by (simp add: ops_demo_def json_response_def decode_def ok_def task_one_def)

theorem reload_replaces_collection_witness:
  "has_token signed_in \<and> ops_demo \<noteq> [] \<and> list_all succeeds ops_demo \<and>
   tasks (run signed_in ops_demo) = JTasks [task_two]"
proof -
  have tok: "has_token signed_in" by (simp add: has_token_def signed_in_def mounted_def)
  have ne: "ops_demo \<noteq> []" by (simp add: ops_demo_def)
  have "collection (reload_of (last ops_demo)) = Some [task_two]"
    by (simp add: ops_demo_def json_response_def decode_def ok_def)
  with reload_replaces_collection [OF tok ne ops_demo_succeed] tok ne ops_demo_succeed
  show ?thesis by auto
qed

section \<open>Answers 401 and 403\<close>

text \<open>
  Claim C2 says that a 401 or 403 answer clears the credential, leaves the session
  controller unauthenticated and navigates to the login view exactly once, also when two
  requests fail at the same time. The gateway keeps no record of a logout already under
  way: with two loads in flight, both answered 401, \<open>navigate('/login')\<close> is called
  twice.
\<close>

theorem concurrent_rejections_navigate_twice:
  "length (fetched two_in_flight) = 2 \<and> navigated two_in_flight = [] \<and>
   navigated (snd (fetchWithAuth_resume (Responded unauthorized_response)
     (snd (fetchWithAuth_resume (Responded unauthorized_response) two_in_flight))))
   = [''/login'', ''/login'']"
  by (simp add: two_in_flight_def fetchWithAuth_begin_def signed_in_def mounted_def
      fetchWithAuth_resume_def read_response_def on_api_error_def unauthorized_response_def)

text \<open>
  Claim C2, as the code has it. Every 401 or 403 answer, whichever operation asked, throws
  \<open>Unauthorized\<close>, removes the token from storage (removing it again changes nothing),
  sets the session-expired message and calls \<open>navigate('/login')\<close> once for that answer;
  so do load, create, delete and update when their request is answered that way.
\<close>

theorem rejection_logs_out_per_response:
  assumes "http_status r = 401 \<or> http_status r = 403"
  shows "fetchWithAuth_resume (Responded r) s =
           (Inl ''Unauthorized'',
            s\<lparr>error := Some ''Session expired or invalid. Please login again.'',
              localStorage := (localStorage s)(''token'' := None),
              navigated := navigated s @ [''/login'']\<rparr>) \<and>
         (has_token s \<longrightarrow>
            (\<forall>s' \<in> {fetchTasks (Responded r) s,
                     handleCreateTask (Responded r) get s,
                     handleDeleteTask taskId True (Responded r) get s}.
               localStorage s' = (localStorage s)(''token'' := None) \<and>
               navigated s' = navigated s @ [''/login''] \<and>
               error s' = Some ''Session expired or invalid. Please login again.'') \<and>
            (editing (editingTaskId s) \<longrightarrow>
               localStorage (handleUpdateTask (Responded r) get s)
                 = (localStorage s)(''token'' := None) \<and>
               navigated (handleUpdateTask (Responded r) get s) = navigated s @ [''/login''] \<and>
               error (handleUpdateTask (Responded r) get s)
                 = Some ''Session expired or invalid. Please login again.''))"
proof -
  have gw: "\<And>s. fetchWithAuth_resume (Responded r) s =
           (Inl ''Unauthorized'',
            s\<lparr>error := Some ''Session expired or invalid. Please login again.'',
              localStorage := (localStorage s)(''token'' := None),
              navigated := navigated s @ [''/login'']\<rparr>)"
    using assms by (rule resume_unauthorized)
  have ops: "localStorage s' = (localStorage s)(''token'' := None) \<and>
             navigated s' = navigated s @ [''/login''] \<and>
             error s' = Some ''Session expired or invalid. Please login again.''"
    if tok: "has_token s"
      and s': "s' = fetchTasks (Responded r) s \<or> s' = handleCreateTask (Responded r) get s \<or>
               s' = handleDeleteTask taskId True (Responded r) get s \<or>
               (editing (editingTaskId s) \<and> s' = handleUpdateTask (Responded r) get s)"
    for s'
  proof -
    from tok obtain tk where tk: "localStorage s ''token'' = Some tk" "tk \<noteq> []"
      by (cases "localStorage s ''token''") (auto simp: has_token_def)
    from s' tk show ?thesis
      by (cases "editingTaskId s")
         (auto simp: fetchTasks_def handleCreateTask_def handleDeleteTask_def
            handleUpdateTask_def fetchWithAuth_with_token gw)
  qed
  from gw ops show ?thesis by blast
qed

theorem rejection_logs_out_per_response_witness:
  "(http_status unauthorized_response = 401 \<or> http_status unauthorized_response = 403) \<and>
   has_token loaded \<and>
   localStorage (fetchTasks (Responded unauthorized_response) loaded) ''token'' = None \<and>
   navigated (fetchTasks (Responded unauthorized_response) loaded) = [''/login'']"
proof -
  have h: "http_status unauthorized_response = 401 \<or> http_status unauthorized_response = 403"
    by (simp add: unauthorized_response_def)
  have ld: "loaded = signed_in\<lparr>tasks := JTasks [task_one],
      fetched := [build_request (API_BASE_URL @ ''/tasks'') no_options ''abc'']\<rparr>"
    by (simp add: loaded_def signed_in_def mounted_def fetchTasks_delivers [where tok = "''abc''"]
        json_response_def decode_def ok_def)
  have tok: "has_token loaded"
    by (simp add: ld has_token_def signed_in_def mounted_def)
  have nav: "navigated loaded = []"
    by (simp add: ld signed_in_def mounted_def)
  from rejection_logs_out_per_response [OF h, of loaded] tok h nav show ?thesis
    by simp
qed

section \<open>Failures and the task collection\<close>

text \<open>
  The failures that throw (a rejected \<open>fetch\<close>, a 401 or 403, any other answer that is
  not ok, a body that cannot be read) leave the collection as it was, in all four
  operations.
\<close>

lemma gateway_failure_keeps_collection:
  assumes "has_token s" and "gateway_value out = None"
  shows "tasks (fetchTasks out s) = tasks s \<and>
         tasks (handleCreateTask out get s) = tasks s \<and>
         tasks (handleDeleteTask taskId confirmed out get s) = tasks s \<and>
         tasks (handleUpdateTask out get s) = tasks s"
proof -
  let ?s1 = "s\<lparr>isLoading := True, error := None\<rparr>"
  have tok1: "has_token ?s1" using assms(1) by (simp add: has_token_def)
  have thrown: "\<exists>m s'. fetchWithAuth url opts out ?s1 = (Inl m, s') \<and> tasks s' = tasks s"
    for url opts
    using fetchWithAuth_throws [OF tok1 assms(2), of url opts] by simp
  have "tasks (fetchTasks out s) = tasks s"
    using thrown [of "API_BASE_URL @ ''/tasks''" no_options] by (auto simp: fetchTasks_def)
  moreover have "tasks (handleCreateTask out get s) = tasks s"
    using thrown [of "API_BASE_URL @ ''/tasks''" "\<lparr> opt_method = Some ''POST'',
               opt_headers = [''Content-Type'' \<mapsto> ''application/json''],
               opt_body = Some \<lparr> body_title = newTaskTitle s,
                 body_description = newTaskDescription s,
                 body_completed = (newTaskStatus s = ''COMPLETED'') \<rparr> \<rparr>"]
    by (auto simp: handleCreateTask_def)
  moreover have "tasks (handleDeleteTask taskId confirmed out get s) = tasks s"
    using thrown [of "API_BASE_URL @ ''/tasks/'' @ show_nat taskId"
        "\<lparr> opt_method = Some ''DELETE'', opt_headers = Map.empty, opt_body = None \<rparr>"]
    by (auto simp: handleDeleteTask_def)
  moreover have "tasks (handleUpdateTask out get s) = tasks s"
  proof (cases "editingTaskId s")
    case None
    then show ?thesis by (simp add: handleUpdateTask_def)
  next
    case (Some i)
    show ?thesis
    proof (cases "i = 0")
      case True
      with Some show ?thesis by (simp add: handleUpdateTask_def)
    next
      case False
      from thrown [of "API_BASE_URL @ ''/tasks/'' @ show_nat i" "\<lparr> opt_method = Some ''PUT'',
               opt_headers = [''Content-Type'' \<mapsto> ''application/json''],
               opt_body = Some \<lparr> body_title = editTaskTitle s,
                 body_description = editTaskDescription s,
                 body_completed = (editTaskStatus s = Some ''COMPLETED'') \<rparr> \<rparr>"]
      show ?thesis unfolding handleUpdateTask_unfold [OF Some False] by auto
    qed
  qed
  ultimately show ?thesis by simp
qed

text \<open>
  Claim C3 says that every gateway failure, a missing credential included, aborts the
  operation and leaves the last collection untouched. Without a token \<open>fetchWithAuth\<close>
  returns \<open>undefined\<close> instead of throwing, and \<open>fetchTasks\<close> takes that for an empty
  answer: the collection \<open>[task_one]\<close> becomes empty, although nothing was fetched. A
  confirmed delete in that state goes on to the reload and empties the list as well.
\<close>

theorem load_without_token_empties_collection:
  "tasks session_expired = JTasks [task_one] \<and>
   tasks (fetchTasks (Rejected []) session_expired) = JTasks [] \<and>
   fetched (fetchTasks (Rejected []) session_expired) = fetched session_expired \<and>
   tasks (handleDeleteTask 1 True (Rejected []) (Rejected []) session_expired) = JTasks []"
  by (simp add: session_expired_state loaded_state signed_in_def mounted_def fetchTasks_def
      handleDeleteTask_def fetchWithAuth_without_token)

text \<open>
  Claim C8 says that a request made without a credential fails with a no-credential error
  and is treated like an unauthorized answer, forcing the session controller into the
  unauthenticated state. In the state left by a 401 (token removed, \<open>isAuthenticated\<close>
  still true) the gateway sends nothing and navigates to the login view, but it returns
  \<open>undefined\<close> where the 401 branch throws, and \<open>isAuthenticated\<close> stays true.
\<close>

theorem missing_token_returns_undefined:
  "isAuthenticated session_expired \<and> localStorage session_expired ''token'' = None \<and>
   fst (fetchWithAuth tasks_url no_options (Rejected []) session_expired) = Inr JUndefined \<and>
   fetched (snd (fetchWithAuth tasks_url no_options (Rejected []) session_expired))
     = fetched session_expired \<and>
   navigated (snd (fetchWithAuth tasks_url no_options (Rejected []) session_expired))
     = [''/login'', ''/login''] \<and>
   isAuthenticated (snd (fetchWithAuth tasks_url no_options (Rejected []) session_expired)) \<and>
   fst (fetchWithAuth tasks_url no_options (Responded unauthorized_response) loaded)
     = Inl ''Unauthorized''"
  by (simp add: session_expired_state loaded_state signed_in_def mounted_def
      fetchWithAuth_without_token fetchWithAuth_with_token [where tok = "''abc''"]
      resume_unauthorized unauthorized_response_def)

section \<open>Empty titles\<close>

text \<open>
  Claim C4 says that create and update with an empty title raise a local validation error
  before any network call. \<open>handleCreateTask\<close> does not look at the title: with an empty
  title it posts a task whose title is empty, and the only message is the one of the
  failed request.
\<close>

theorem empty_title_is_posted:
  "newTaskTitle loaded = [] \<and>
   map req_method (fetched (handleCreateTask (Rejected ''Failed to fetch'') (Rejected []) loaded))
     = [None, Some ''POST''] \<and>
   map req_body (fetched (handleCreateTask (Rejected ''Failed to fetch'') (Rejected []) loaded))
     = [None, Some \<lparr> body_title = [], body_description = [], body_completed = False \<rparr>] \<and>
   error (handleCreateTask (Rejected ''Failed to fetch'') (Rejected []) loaded)
     = Some ''Failed to fetch''"
  by (simp add: loaded_state signed_in_def mounted_def handleCreateTask_def
      fetchWithAuth_with_token [where tok = "''abc''"] fetchWithAuth_resume_def on_api_error_def
      build_request_def no_options_def)

text \<open>
  Claim C4, as the code has it. The title inputs are \<open>required\<close>: while the title is
  empty the browser does not submit the create form or the edit form, and nothing changes
  (no request, no message, the same collection). The handlers themselves send whatever
  title the state holds.
\<close>

theorem empty_title_stopped_by_required_input:
  "(newTaskTitle s = [] \<longrightarrow> submit_create_form post get s = s) \<and>
   (editTaskTitle s = [] \<longrightarrow> submit_edit_form put get s = s) \<and>
   (has_token s \<longrightarrow>
      (\<exists>req rest. fetched (handleCreateTask post get s) = fetched s @ req # rest \<and>
         req_method req = Some ''POST'' \<and>
         map_option body_title (req_body req) = Some (newTaskTitle s)) \<and>
      (editing (editingTaskId s) \<longrightarrow>
        (\<exists>req rest. fetched (handleUpdateTask put get s) = fetched s @ req # rest \<and>
           req_method req = Some ''PUT'' \<and>
           map_option body_title (req_body req) = Some (editTaskTitle s))))"
proof -
  have gate: "(newTaskTitle s = [] \<longrightarrow> submit_create_form post get s = s) \<and>
      (editTaskTitle s = [] \<longrightarrow> submit_edit_form put get s = s)"
    by (simp add: submit_create_form_def submit_edit_form_def)
  have handlers: "(\<exists>req rest. fetched (handleCreateTask post get s) = fetched s @ req # rest \<and>
         req_method req = Some ''POST'' \<and>
         map_option body_title (req_body req) = Some (newTaskTitle s)) \<and>
      (editing (editingTaskId s) \<longrightarrow>
        (\<exists>req rest. fetched (handleUpdateTask put get s) = fetched s @ req # rest \<and>
           req_method req = Some ''PUT'' \<and>
           map_option body_title (req_body req) = Some (editTaskTitle s)))"
    if "has_token s"
  proof -
    from that obtain tk where tk: "localStorage s ''token'' = Some tk" "tk \<noteq> []"
      by (cases "localStorage s ''token''") (auto simp: has_token_def)
    from handleCreateTask_sends [OF tk, of post get]
    have c: "\<exists>req rest. fetched (handleCreateTask post get s) = fetched s @ req # rest \<and>
         req_method req = Some ''POST'' \<and>
         map_option body_title (req_body req) = Some (newTaskTitle s)"
      by (auto simp: build_request_def)
    have u: "\<exists>req rest. fetched (handleUpdateTask put get s) = fetched s @ req # rest \<and>
           req_method req = Some ''PUT'' \<and>
           map_option body_title (req_body req) = Some (editTaskTitle s)"
      if "editing (editingTaskId s)"
    proof -
      from that obtain i where i: "editingTaskId s = Some i" "i \<noteq> 0"
        by (cases "editingTaskId s") auto
      from handleUpdateTask_sends [OF tk i, of put get] show ?thesis
        by (auto simp: build_request_def)
    qed
    from c u show ?thesis by blast
  qed
  from gate handlers show ?thesis by blast
qed

theorem empty_title_stopped_by_required_input_witness:
  "newTaskTitle loaded = [] \<and> has_token loaded \<and>
   submit_create_form (Rejected []) (Rejected []) loaded = loaded \<and>
   editTaskTitle loaded = [] \<and>
   submit_edit_form (Rejected []) (Rejected []) loaded = loaded \<and>
   editing (editingTaskId (handleStartEdit task_one loaded)) \<and>
   has_token (handleStartEdit task_one loaded) \<and>
   (\<exists>req rest. fetched (handleUpdateTask (Rejected []) (Rejected [])
        (handleStartEdit task_one loaded)) = fetched loaded @ req # rest \<and>
      map_option body_title (req_body req) = Some ''X'')"
proof -
  have a: "newTaskTitle loaded = []" "editTaskTitle loaded = []" "has_token loaded"
    by (simp_all add: loaded_state signed_in_def mounted_def has_token_def)
  have b: "editing (editingTaskId (handleStartEdit task_one loaded))"
    "has_token (handleStartEdit task_one loaded)"
    "editTaskTitle (handleStartEdit task_one loaded) = ''X''"
    "fetched (handleStartEdit task_one loaded) = fetched loaded"
    by (simp_all add: handleStartEdit_def task_one_def loaded_state signed_in_def mounted_def
        has_token_def)
  from empty_title_stopped_by_required_input [of loaded "Rejected []" "Rejected []" "Rejected []"]
    empty_title_stopped_by_required_input
      [of "handleStartEdit task_one loaded" "Rejected []" "Rejected []" "Rejected []"] a b
  show ?thesis by auto
qed

section \<open>The status badge and the counters\<close>

text \<open>
  Claim C5 says that the displayed status is derived from the completion flag and is
  either PENDING or COMPLETED. The badge prints the task's \<open>status\<close> field: a completed
  task whose status is PENDING shows PENDING, any third status is shown as it is, and a
  task without the field shows nothing.
\<close>

theorem badge_prints_status_field:
  "badge_text \<lparr> task_id = 1, title = ''X'', description = [], completed = Some True,
                 status = Some ''PENDING'' \<rparr> = ''PENDING'' \<and>
   badge_text \<lparr> task_id = 1, title = ''X'', description = [], completed = Some False,
                 status = Some ''IN_PROGRESS'' \<rparr> = ''IN_PROGRESS'' \<and>
   badge_text \<lparr> task_id = 1, title = ''X'', description = [], completed = Some True,
                 status = None \<rparr> = []"
  by (simp add: badge_text_def)

lemma counters_ignore_status:
  "completed_count (map (\<lambda>t. t\<lparr>status := x\<rparr>) ts) = completed_count ts \<and>
   pending_count (map (\<lambda>t. t\<lparr>status := x\<rparr>) ts) = pending_count ts"
  by (induction ts) (simp_all add: completed_count_def pending_count_def)

lemma counters_count_boolean_flags:
  "completed_count ts + pending_count ts = length (filter (\<lambda>t. completed t \<noteq> None) ts)"
proof (induction ts)
  case Nil
  show ?case by (simp add: completed_count_def pending_count_def)
next
  case (Cons a ts)
  consider "completed a = None" | "completed a = Some True" | "completed a = Some False"
    by (cases "completed a") auto
  then show ?case
    using Cons.IH by cases (auto simp: completed_count_def pending_count_def)
qed

text \<open>
  Claim C5, as the code has it. The badge shows the \<open>status\<close> field verbatim, nothing
  when the field is absent, and is green exactly for the string COMPLETED, blue
  otherwise; neither depends on the \<open>completed\<close> flag. The two counters depend on the
  flag only, not on \<open>status\<close>: a task adds one to Completed when its flag is the boolean
  true, one to Pending when it is the boolean false, and to neither when the flag is
  missing or not a boolean.
\<close>

theorem badge_follows_status_counters_follow_flag:
  "(status t = None \<longrightarrow> badge_text t = []) \<and>
   (\<forall>st. status t = Some st \<longrightarrow> badge_text t = st) \<and>
   (badge_class t = ''bg-green-100 text-green-800'' \<longleftrightarrow> status t = Some ''COMPLETED'') \<and>
   (badge_class t = ''bg-blue-100 text-blue-800'' \<longleftrightarrow> status t \<noteq> Some ''COMPLETED'') \<and>
   badge_text (t\<lparr>completed := c\<rparr>) = badge_text t \<and>
   badge_class (t\<lparr>completed := c\<rparr>) = badge_class t \<and>
   completed_count (map (\<lambda>t. t\<lparr>status := x\<rparr>) ts) = completed_count ts \<and>
   pending_count (map (\<lambda>t. t\<lparr>status := x\<rparr>) ts) = pending_count ts \<and>
   completed_count (t # ts) = (if completed t = Some True then 1 else 0) + completed_count ts \<and>
   pending_count (t # ts) = (if completed t = Some False then 1 else 0) + pending_count ts \<and>
   (completed t = None \<longrightarrow>
      completed_count (t # ts) = completed_count ts \<and>
      pending_count (t # ts) = pending_count ts) \<and>
   completed_count ts + pending_count ts = length (filter (\<lambda>t. completed t \<noteq> None) ts)"
proof -
  have badge: "(status t = None \<longrightarrow> badge_text t = []) \<and>
   (\<forall>st. status t = Some st \<longrightarrow> badge_text t = st) \<and>
   (badge_class t = ''bg-green-100 text-green-800'' \<longleftrightarrow> status t = Some ''COMPLETED'') \<and>
   (badge_class t = ''bg-blue-100 text-blue-800'' \<longleftrightarrow> status t \<noteq> Some ''COMPLETED'') \<and>
   badge_text (t\<lparr>completed := c\<rparr>) = badge_text t \<and>
   badge_class (t\<lparr>completed := c\<rparr>) = badge_class t"
    by (simp add: badge_text_def badge_class_def)
  have step: "completed_count (t # ts) = (if completed t = Some True then 1 else 0) + completed_count ts \<and>
   pending_count (t # ts) = (if completed t = Some False then 1 else 0) + pending_count ts \<and>
   (completed t = None \<longrightarrow>
      completed_count (t # ts) = completed_count ts \<and>
      pending_count (t # ts) = pending_count ts)"
  proof -
    consider "completed t = None" | "completed t = Some True" | "completed t = Some False"
      by (cases "completed t") auto
    then show ?thesis
      by cases (simp_all add: completed_count_def pending_count_def)
  qed
  from badge step counters_ignore_status [of x ts] counters_count_boolean_flags [of ts]
  show ?thesis by blast
qed

theorem badge_follows_status_counters_follow_flag_witness:
  "status task_two = Some ''COMPLETED'' \<and> badge_text task_two = ''COMPLETED'' \<and>
   badge_class task_two = ''bg-green-100 text-green-800'' \<and>
   badge_text (task_two\<lparr>completed := Some False\<rparr>) = ''COMPLETED'' \<and>
   status task_three = None \<and> completed task_three = None \<and>
   badge_text task_three = [] \<and>
   completed_count [task_three, task_one, task_two] = completed_count [task_one, task_two] \<and>
   pending_count [task_three, task_one, task_two] = pending_count [task_one, task_two] \<and>
   completed_count [task_three, task_one, task_two]
     + pending_count [task_three, task_one, task_two] = 2"
proof -
  have st: "status task_two = Some ''COMPLETED''" by (simp add: task_two_def)
  have th: "status task_three = None" "completed task_three = None"
    by (simp_all add: task_three_def)
  have n: "length (filter (\<lambda>t. completed t \<noteq> None) [task_three, task_one, task_two]) = 2"
    by (auto simp: task_one_def task_two_def task_three_def)
  from badge_follows_status_counters_follow_flag
         [of task_two "Some False" None "[task_one, task_two]"]
       badge_follows_status_counters_follow_flag
         [of task_three None None "[task_one, task_two]"]
       badge_follows_status_counters_follow_flag
         [of task_three None None "[task_three, task_one, task_two]"]
       st th n
  show ?thesis by simp
qed

section \<open>The busy flag\<close>

text \<open>
  Claim C6 says that while the busy flag is set an invocation of another operation is
  rejected without a network call and without touching the operation in flight. The
  handlers never read \<open>isLoading\<close>: called while a load is in flight, \<open>handleDeleteTask\<close>
  sends its DELETE and its reload, and clears the flag under the load still in flight.
\<close>

theorem handler_runs_while_busy:
  "isLoading load_in_flight \<and>
   map req_method (fetched load_in_flight) = [None, None] \<and>
   map req_method (fetched (handleDeleteTask 1 True
      (Responded (json_response 204 JNull)) (Responded (json_response 200 (JTasks [])))
      load_in_flight)) = [None, None, Some ''DELETE'', None] \<and>
   \<not> isLoading (handleDeleteTask 1 True
      (Responded (json_response 204 JNull)) (Responded (json_response 200 (JTasks [])))
      load_in_flight)"
  by (simp add: load_in_flight_def tasks_url_def loaded_state signed_in_def mounted_def
      fetchWithAuth_begin_def handleDeleteTask_def fetchTasks_def
      fetchWithAuth_with_token [where tok = "''abc''"] fetchWithAuth_resume_def
      read_response_def decode_def ok_def json_response_def build_request_def no_options_def)

text \<open>
  Claim C6, as the code has it. While the busy flag is set the Edit and Delete buttons
  and the two submit buttons are disabled: using them changes nothing and sends nothing.
  The handlers behind them do not look at the flag: create, a confirmed delete and an
  update of an open edit do the same whether it is set or not, send their request
  whenever a token is stored, and leave the flag cleared.
\<close>

theorem busy_flag_guards_buttons_not_handlers:
  "(isLoading s \<longrightarrow>
      click_edit t s = s \<and> click_delete taskId confirmed del get s = s \<and>
      submit_create_form post get s = s \<and> submit_edit_form put get s = s) \<and>
   handleCreateTask post get (s\<lparr>isLoading := True\<rparr>)
     = handleCreateTask post get (s\<lparr>isLoading := False\<rparr>) \<and>
   handleDeleteTask taskId True del get (s\<lparr>isLoading := True\<rparr>)
     = handleDeleteTask taskId True del get (s\<lparr>isLoading := False\<rparr>) \<and>
   (editing (editingTaskId s) \<longrightarrow>
      handleUpdateTask put get (s\<lparr>isLoading := True\<rparr>)
        = handleUpdateTask put get (s\<lparr>isLoading := False\<rparr>)) \<and>
   \<not> isLoading (handleCreateTask post get s) \<and>
   \<not> isLoading (handleDeleteTask taskId True del get s) \<and>
   (editing (editingTaskId s) \<longrightarrow> \<not> isLoading (handleUpdateTask put get s)) \<and>
   (has_token s \<longrightarrow>
      (\<exists>req rest. fetched (handleCreateTask post get s) = fetched s @ req # rest \<and>
         req_method req = Some ''POST'') \<and>
      (\<exists>req rest. fetched (handleDeleteTask taskId True del get s) = fetched s @ req # rest \<and>
         req_method req = Some ''DELETE'') \<and>
      (editing (editingTaskId s) \<longrightarrow>
         (\<exists>req rest. fetched (handleUpdateTask put get s) = fetched s @ req # rest \<and>
            req_method req = Some ''PUT'')))"
proof -
  have buttons: "isLoading s \<longrightarrow>
      click_edit t s = s \<and> click_delete taskId confirmed del get s = s \<and>
      submit_create_form post get s = s \<and> submit_edit_form put get s = s"
    by (simp add: click_edit_def click_delete_def submit_create_form_def submit_edit_form_def)
  have ignore: "handleCreateTask post get (s\<lparr>isLoading := True\<rparr>)
     = handleCreateTask post get (s\<lparr>isLoading := False\<rparr>)"
    "handleDeleteTask taskId True del get (s\<lparr>isLoading := True\<rparr>)
     = handleDeleteTask taskId True del get (s\<lparr>isLoading := False\<rparr>)"
    "editing (editingTaskId s) \<longrightarrow>
      handleUpdateTask put get (s\<lparr>isLoading := True\<rparr>)
        = handleUpdateTask put get (s\<lparr>isLoading := False\<rparr>)"
    by (simp_all add: handlers_ignore_flag)
  have clear: "\<not> isLoading (handleCreateTask post get s)"
    "\<not> isLoading (handleDeleteTask taskId True del get s)"
    "editing (editingTaskId s) \<longrightarrow> \<not> isLoading (handleUpdateTask put get s)"
    by (simp_all add: handlers_clear_flag)
  have send: "(\<exists>req rest. fetched (handleCreateTask post get s) = fetched s @ req # rest \<and>
         req_method req = Some ''POST'') \<and>
      (\<exists>req rest. fetched (handleDeleteTask taskId True del get s) = fetched s @ req # rest \<and>
         req_method req = Some ''DELETE'') \<and>
      (editing (editingTaskId s) \<longrightarrow>
         (\<exists>req rest. fetched (handleUpdateTask put get s) = fetched s @ req # rest \<and>
            req_method req = Some ''PUT''))"
    if "has_token s"
  proof -
    from that obtain tk where tk: "localStorage s ''token'' = Some tk" "tk \<noteq> []"
      by (cases "localStorage s ''token''") (auto simp: has_token_def)
    from handleCreateTask_sends [OF tk, of post get]
    have c: "\<exists>req rest. fetched (handleCreateTask post get s) = fetched s @ req # rest \<and>
         req_method req = Some ''POST''"
      by (auto simp: build_request_def)
    from handleDeleteTask_sends [OF tk, of taskId del get]
    have d: "\<exists>req rest. fetched (handleDeleteTask taskId True del get s)
          = fetched s @ req # rest \<and> req_method req = Some ''DELETE''"
      by (auto simp: build_request_def)
    have u: "\<exists>req rest. fetched (handleUpdateTask put get s) = fetched s @ req # rest \<and>
            req_method req = Some ''PUT''"
      if "editing (editingTaskId s)"
    proof -
      from that obtain i where i: "editingTaskId s = Some i" "i \<noteq> 0"
        by (cases "editingTaskId s") auto
      from handleUpdateTask_sends [OF tk i, of put get] show ?thesis
        by (auto simp: build_request_def)
    qed
    from c d u show ?thesis by blast
  qed
  from buttons ignore clear send show ?thesis by blast
qed

theorem busy_flag_guards_buttons_not_handlers_witness:
  "isLoading load_in_flight \<and> has_token load_in_flight \<and>
   click_delete 1 True (Responded (json_response 204 JNull))
     (Responded (json_response 200 (JTasks []))) load_in_flight = load_in_flight \<and>
   click_edit task_one load_in_flight = load_in_flight \<and>
   \<not> isLoading (handleDeleteTask 1 True (Responded (json_response 204 JNull))
     (Responded (json_response 200 (JTasks []))) load_in_flight) \<and>
   (\<exists>req rest. fetched (handleDeleteTask 1 True (Responded (json_response 204 JNull))
        (Responded (json_response 200 (JTasks []))) load_in_flight)
        = fetched load_in_flight @ req # rest \<and> req_method req = Some ''DELETE'')"
proof -
  have busy: "isLoading load_in_flight"
    by (simp add: load_in_flight_def fetchWithAuth_begin_def loaded_state signed_in_def
        mounted_def)
  have tok: "has_token load_in_flight"
    by (simp add: load_in_flight_def fetchWithAuth_begin_def loaded_state signed_in_def
        mounted_def has_token_def)
  note all = busy_flag_guards_buttons_not_handlers
    [where s = load_in_flight and t = task_one and taskId = 1 and confirmed = True
       and del = "Responded (json_response 204 JNull)"
       and get = "Responded (json_response 200 (JTasks []))"]
  from all busy tok show ?thesis by blast
qed

section \<open>The edit session\<close>

lemma change_draft_frame:
  "localStorage (foldl change_draft s cs) = localStorage s \<and>
   fetched (foldl change_draft s cs) = fetched s \<and>
   editingTaskId (foldl change_draft s cs) = editingTaskId s"
proof (induction cs arbitrary: s)
  case Nil
  show ?case by simp
next
  case (Cons c cs)
  show ?case using Cons.IH [of "change_draft s c"] by (cases c) simp_all
qed

lemma start_edit_absorbs_changes:
  "handleStartEdit b (foldl change_draft s cs) = handleStartEdit b s"
proof (induction cs arbitrary: s)
  case Nil
  show ?case by simp
next
  case (Cons c cs)
  have "handleStartEdit b (change_draft s c) = handleStartEdit b s"
    by (cases c) (simp_all add: handleStartEdit_def)
  with Cons.IH [of "change_draft s c"] show ?case by simp
qed

lemma start_edit_absorbs_edit:
  "handleStartEdit b (handleStartEdit a s) = handleStartEdit b s"
  by (simp add: handleStartEdit_def)

text \<open>
  Claim C7. The edit session has one slot. Starting an edit on task \<open>a\<close>, changing its
  draft, then starting an edit on task \<open>b\<close> (no prompt is involved) and changing that
  draft gives the very state that editing \<open>b\<close> alone gives: nothing of the first draft
  is left. Saving then sends exactly two requests, the PUT for \<open>b\<close> carrying that draft
  and the reload; and when the PUT succeeds the session is back to idle. The id of \<open>b\<close>
  is truthy (the handler returns early on 0) and within the range where the URL shows its
  decimal digits.
\<close>

theorem second_edit_discards_first_draft:
  assumes "localStorage s ''token'' = Some tok" and "tok \<noteq> []"
    and "task_id b \<noteq> 0" and "task_id b \<le> MAX_SAFE_INTEGER"
    and "gateway_value put = Some v"
    and "sa = foldl change_draft (handleStartEdit a s) changes_a"
    and "sb = foldl change_draft (handleStartEdit b sa) changes_b"
    and "only_b = foldl change_draft (handleStartEdit b s) changes_b"
  shows "sb = only_b \<and>
         editingTaskId sb = Some (task_id b) \<and>
         fetched (handleUpdateTask put get sb) =
           fetched s @
           [build_request (API_BASE_URL @ ''/tasks/'' @ show_nat (task_id b))
              \<lparr> opt_method = Some ''PUT'',
                opt_headers = [''Content-Type'' \<mapsto> ''application/json''],
                opt_body = Some \<lparr> body_title = editTaskTitle only_b,
                  body_description = editTaskDescription only_b,
                  body_completed = (editTaskStatus only_b = Some ''COMPLETED'') \<rparr> \<rparr> tok,
            build_request (API_BASE_URL @ ''/tasks'') no_options tok] \<and>
         editingTaskId (handleUpdateTask put get sb) = None"
proof -
  have "handleStartEdit b sa = handleStartEdit b s"
    unfolding assms(6) by (simp only: start_edit_absorbs_changes start_edit_absorbs_edit)
  then have same: "sb = only_b"
    unfolding assms(7) assms(8) by (rule arg_cong)
  have frame: "localStorage only_b = localStorage s" "fetched only_b = fetched s"
    "editingTaskId only_b = Some (task_id b)"
    unfolding assms(8) by (simp_all add: change_draft_frame handleStartEdit_def)
  from frame assms(1) have tk: "localStorage only_b ''token'' = Some tok" by simp
  have sent: "fetched (handleUpdateTask put get only_b) =
           fetched s @
           [build_request (API_BASE_URL @ ''/tasks/'' @ show_nat (task_id b))
              \<lparr> opt_method = Some ''PUT'',
                opt_headers = [''Content-Type'' \<mapsto> ''application/json''],
                opt_body = Some \<lparr> body_title = editTaskTitle only_b,
                  body_description = editTaskDescription only_b,
                  body_completed = (editTaskStatus only_b = Some ''COMPLETED'') \<rparr> \<rparr> tok,
            build_request (API_BASE_URL @ ''/tasks'') no_options tok]"
    using handleUpdateTask_commits [OF tk assms(2) frame(3) assms(3) assms(5), of get]
    unfolding frame(2) .
  have closed: "editingTaskId (handleUpdateTask put get only_b) = None"
    using handleUpdateTask_closes [OF tk assms(2) frame(3) assms(3) assms(5)] .
  show ?thesis
    unfolding same
    by (rule conjI [OF refl conjI [OF frame(3) conjI [OF sent closed]]])
qed

theorem second_edit_discards_first_draft_witness:
  "localStorage loaded ''token'' = Some ''abc'' \<and> task_id task_two \<noteq> 0 \<and>
   task_id task_two \<le> MAX_SAFE_INTEGER \<and>
   gateway_value (Responded (json_response 200 (JObject []))) = Some (JObject []) \<and>
   foldl change_draft
       (handleStartEdit task_two
         (foldl change_draft (handleStartEdit task_one loaded) [TypeTitle ''lost'']))
       [ChooseStatus ''PENDING'']
     = foldl change_draft (handleStartEdit task_two loaded) [ChooseStatus ''PENDING''] \<and>
   fetched (handleUpdateTask (Responded (json_response 200 (JObject []))) (Rejected [])
     (foldl change_draft
       (handleStartEdit task_two
         (foldl change_draft (handleStartEdit task_one loaded) [TypeTitle ''lost'']))
       [ChooseStatus ''PENDING'']))
     = fetched loaded @
       [build_request ''http://localhost:8080/tasks/2''
          \<lparr> opt_method = Some ''PUT'',
            opt_headers = [''Content-Type'' \<mapsto> ''application/json''],
            opt_body = Some \<lparr> body_title = ''Y'', body_description = ''second'',
              body_completed = False \<rparr> \<rparr> ''abc'',
        build_request ''http://localhost:8080/tasks'' no_options ''abc''] \<and>
   editingTaskId (handleUpdateTask (Responded (json_response 200 (JObject []))) (Rejected [])
     (foldl change_draft
       (handleStartEdit task_two
         (foldl change_draft (handleStartEdit task_one loaded) [TypeTitle ''lost'']))
       [ChooseStatus ''PENDING''])) = None"
proof -
  have tok: "localStorage loaded ''token'' = Some ''abc''" "''abc'' \<noteq> []"
    by (simp_all add: loaded_state signed_in_def mounted_def)
  have id: "task_id task_two \<noteq> 0" "task_id task_two \<le> MAX_SAFE_INTEGER"
    by (simp_all add: task_two_def MAX_SAFE_INTEGER_def)
  have gv: "gateway_value (Responded (json_response 200 (JObject []))) = Some (JObject [])"
    by (simp add: json_response_def decode_def ok_def)
  have dr: "editTaskTitle (foldl change_draft (handleStartEdit task_two loaded)
        [ChooseStatus ''PENDING'']) = ''Y''"
    "editTaskDescription (foldl change_draft (handleStartEdit task_two loaded)
        [ChooseStatus ''PENDING'']) = ''second''"
    "(editTaskStatus (foldl change_draft (handleStartEdit task_two loaded)
        [ChooseStatus ''PENDING'']) = Some ''COMPLETED'') = False"
    by (simp_all add: handleStartEdit_def task_two_def)
  have url: "API_BASE_URL @ ''/tasks/'' @ show_nat (task_id task_two)
      = ''http://localhost:8080/tasks/2''"
    "API_BASE_URL @ ''/tasks'' = ''http://localhost:8080/tasks''"
    by (simp_all add: API_BASE_URL_def task_two_def show_nat_2)
  note all = second_edit_discards_first_draft [OF tok id gv refl refl refl,
      where a = task_one and changes_a = "[TypeTitle ''lost'']"
        and changes_b = "[ChooseStatus ''PENDING'']" and get = "Rejected []",
      unfolded dr url]
  from all tok(1) id gv show ?thesis by blast
qed

text \<open>
  Claim C9. An update maps the chosen status to the \<open>completed\<close> flag by comparing it
  with the string COMPLETED: that string gives true, PENDING and every other value (also
  a missing one) give false, and the request is sent either way.
\<close>

theorem status_choice_compared_exactly:
  assumes "has_token s" and "editing (editingTaskId s)"
  shows "\<exists>req rest. fetched (handleUpdateTask put get s) = fetched s @ req # rest \<and>
           req_method req = Some ''PUT'' \<and>
           map_option body_completed (req_body req)
             = Some (editTaskStatus s = Some ''COMPLETED'')"
proof -
  from assms(1) obtain tk where tk: "localStorage s ''token'' = Some tk" "tk \<noteq> []"
    by (cases "localStorage s ''token''") (auto simp: has_token_def)
  from assms(2) obtain i where i: "editingTaskId s = Some i" "i \<noteq> 0"
    by (cases "editingTaskId s") auto
  from handleUpdateTask_sends [OF tk i, of put get] show ?thesis
    by (auto simp: build_request_def)
qed

theorem status_choice_compared_exactly_witness:
  "has_token (change_draft (handleStartEdit task_two loaded) (ChooseStatus ''completed'')) \<and>
   editing (editingTaskId
     (change_draft (handleStartEdit task_two loaded) (ChooseStatus ''completed''))) \<and>
   (\<exists>req rest. fetched (handleUpdateTask (Rejected []) (Rejected [])
        (change_draft (handleStartEdit task_two loaded) (ChooseStatus ''completed'')))
        = fetched loaded @ req # rest \<and>
      req_method req = Some ''PUT'' \<and>
      map_option body_completed (req_body req) = Some False)"
proof -
  let ?s = "change_draft (handleStartEdit task_two loaded) (ChooseStatus ''completed'')"
  have tok: "has_token ?s"
    by (simp add: handleStartEdit_def loaded_state signed_in_def mounted_def has_token_def)
  have ed: "editing (editingTaskId ?s)"
    by (simp add: handleStartEdit_def task_two_def)
  have st: "(editTaskStatus ?s = Some ''COMPLETED'') = False" "fetched ?s = fetched loaded"
    by (simp_all add: handleStartEdit_def)
  from status_choice_compared_exactly [OF tok ed, of "Rejected []" "Rejected []"]
  have "\<exists>req rest. fetched (handleUpdateTask (Rejected []) (Rejected []) ?s)
        = fetched loaded @ req # rest \<and>
      req_method req = Some ''PUT'' \<and>
      map_option body_completed (req_body req) = Some False"
    unfolding st .
  with tok ed show ?thesis by blast
qed

section \<open>Logout\<close>

text \<open>
  Claim C10. Logout removes the key \<open>token\<close> from storage and no other key; the login
  form that mounts afterwards reads the same storage as before as far as it can tell, so a
  remembered e-mail still fills the field and ticks the remember-me box.
\<close>

theorem logout_removes_only_token:
  "localStorage (handleLogout s) ''token'' = None \<and>
   (\<forall>k. k \<noteq> ''token'' \<longrightarrow> localStorage (handleLogout s) k = localStorage s k) \<and>
   Login_mount (localStorage (handleLogout s)) f = Login_mount (localStorage s) f \<and>
   (\<forall>e. localStorage s ''rememberedEmail'' = Some e \<and> e \<noteq> [] \<longrightarrow>
      email (Login_mount (localStorage (handleLogout s)) Login_initial) = e \<and>
      rememberMe (Login_mount (localStorage (handleLogout s)) Login_initial))"
  by (simp add: handleLogout_def updateAuthStatus_def Login_mount_def)

theorem logout_removes_only_token_witness:
  "''rememberedEmail'' \<noteq> ''token'' \<and>
   localStorage remembered ''rememberedEmail'' = Some ''ann@example.org'' \<and>
   localStorage (handleLogout remembered) ''token'' = None \<and>
   localStorage (handleLogout remembered) ''rememberedEmail'' = Some ''ann@example.org'' \<and>
   email (Login_mount (localStorage (handleLogout remembered)) Login_initial)
     = ''ann@example.org'' \<and>
   rememberMe (Login_mount (localStorage (handleLogout remembered)) Login_initial)"
proof -
  have k: "''rememberedEmail'' \<noteq> ''token''" by simp
  have e: "localStorage remembered ''rememberedEmail'' = Some ''ann@example.org''"
    by (simp add: remembered_def mounted_def)
  from logout_removes_only_token [of remembered Login_initial] k e show ?thesis
    by auto
qed

end
